theory Spec2Isabelle
  imports Complex_Main "HOL-Library.AList"
begin

section \<open>The ReFlex Takktile hand controller\<close>

text \<open>
  A shallow embedding of \<^verbatim>\<open>reflex/src/reflex/reflex_takktile_hand.py\<close>: the class
  \<^verbatim>\<open>ReflexTakktileHand\<close> and the loop of \<^verbatim>\<open>main\<close>. Every method becomes a function on
  the state of the hand object. An exception becomes a value that carries the state the
  object has at the moment of the raise, since Python does not roll back what a method
  did before it raised.

  The conditions of \<^verbatim>\<open>_publish_motor_commands\<close> are written without their closing colons
  in the source file (lines 129 to 137), which Python rejects when it reads the file. The
  embedding follows the \<^verbatim>\<open>if\<close>/\<^verbatim>\<open>elif\<close>/\<^verbatim>\<open>elif\<close> chain that these lines spell out.

  Methods run to completion one after the other: a callback that the transport would
  deliver while another method of the hand is running is outside this model.
\<close>

subsection \<open>Data\<close>

text \<open>A Python dictionary with string keys, as a list of its items.\<close>

type_synonym 'a dict = "(string \<times> 'a) list"

datatype error = KeyError string | IndexError

text \<open>\<^verbatim>\<open>rospy.Time\<close>: whole seconds and nanoseconds.\<close>

record rostime =
  secs :: int
  nsecs :: int

text \<open>
  The attributes of a motor object that the hand reads or writes. Whatever else the
  motor class keeps lives in the extension of the record. The attribute \<^verbatim>\<open>finger\<close> is a
  reference to one of the objects of \<^verbatim>\<open>self.fingers\<close>; the reference is the key of that
  object in the dictionary, which is never rebound after construction.
\<close>

record motor =
  speed_update_occurred :: bool
  position_update_occurred :: bool
  torque_update_occurred :: bool
  finger :: "string option"

text \<open>\<^verbatim>\<open>reflex_msgs.msg.Command\<close>: the handler reads its fields \<^verbatim>\<open>velocity\<close> and \<^verbatim>\<open>pose\<close>.\<close>

record ('v, 'p) command =
  velocity :: 'v
  pose :: 'p

text \<open>\<^verbatim>\<open>reflex_msgs.msg.Hand\<close>: the handler reads its sequences \<^verbatim>\<open>motor\<close> and \<^verbatim>\<open>finger\<close>.\<close>

record ('ms, 'fs) hand_msg =
  msg_motor :: "'ms list"
  msg_finger :: "'fs list"

text \<open>
  What the hand does to the outside, and the calls it makes on itself, in the order in
  which they happen.
\<close>

datatype hand_method =
  Disable_tactile_stops | Enable_tactile_stops
  | Set_speeds | Set_angles | Set_velocities | Set_force_cmds | Reset_speeds

datatype event =
  Enter hand_method
  | Leave hand_method
  | Sleep real
  | Set_speed_service "real list"
  | Motor_cmd_pub "real list"
  | Motor_torque_pub "real list"
  | Calibrate_fingers_service
  | Calibrate_tactile_service
  | Logfatal
  | Signal_shutdown string
  | Rate_sleep

record ('z, 'f) hand =
  namespace :: string
  motors :: "'z motor_scheme dict"
  fingers :: "'f dict"
  tactile_stops_enabled :: bool
  comms_timeout :: real
  latest_update :: rostime
  trace :: "event list"

text \<open>
  Modelled from the spec: the base class \<^verbatim>\<open>ReflexHand\<close>, the motor class
  \<^verbatim>\<open>ReflexTakktileMotor\<close> and the class \<^verbatim>\<open>finger.Finger\<close> are not among the sources. Their
  methods are parameters of the embedding, typed by what the specification says of
  them: the setters of the base class route a command to the actuators (section 2), a
  method of a motor changes that motor and may look at the finger it refers to, the
  getters of a motor return a setpoint, and the feedback callback of a finger changes
  that finger (section 3).
\<close>

record ('z, 'f, 'v, 'p, 't, 'ms, 'fs) deps =
  new_motor :: "string \<Rightarrow> 'z motor_scheme"
  new_finger :: 'f
  base_set_speeds :: "'v \<Rightarrow> 'z motor_scheme dict \<Rightarrow> 'z motor_scheme dict"
  base_set_angles :: "'p \<Rightarrow> 'z motor_scheme dict \<Rightarrow> 'z motor_scheme dict"
  base_set_velocities :: "'v \<Rightarrow> 'z motor_scheme dict \<Rightarrow> 'z motor_scheme dict"
  base_set_force_cmds :: "'t \<Rightarrow> 'z motor_scheme dict \<Rightarrow> 'z motor_scheme dict"
  base_reset_speeds :: "'z motor_scheme dict \<Rightarrow> 'z motor_scheme dict"
  motor_disable_tactile_stops :: "'f option \<Rightarrow> 'z motor_scheme \<Rightarrow> 'z motor_scheme"
  motor_enable_tactile_stops :: "'f option \<Rightarrow> 'z motor_scheme \<Rightarrow> 'z motor_scheme"
  motor_receive_state_cb :: "'ms \<Rightarrow> 'f option \<Rightarrow> 'z motor_scheme \<Rightarrow> 'z motor_scheme"
  get_commanded_speed :: "'z motor_scheme \<Rightarrow> real"
  get_commanded_position :: "'z motor_scheme \<Rightarrow> real"
  get_commanded_torque :: "'z motor_scheme \<Rightarrow> real"
  finger_receive_state_cb :: "'fs \<Rightarrow> 'f \<Rightarrow> 'f"

text \<open>
  The outcome of a method that may raise: \<open>Inr h\<close> when it returns with the hand in state
  \<open>h\<close>, \<open>Inl (e, h)\<close> when it raises \<open>e\<close> with the hand in state \<open>h\<close>.
\<close>

type_synonym ('z, 'f) outcome = "(error \<times> ('z, 'f) hand) + ('z, 'f) hand"

definition state_of :: "('z, 'f) outcome \<Rightarrow> ('z, 'f) hand" where
  "state_of r = (case r of Inl (e, h) \<Rightarrow> h | Inr h \<Rightarrow> h)"

fun run_all :: "(('z, 'f) hand \<Rightarrow> ('z, 'f) outcome) list \<Rightarrow> ('z, 'f) hand \<Rightarrow> ('z, 'f) outcome" where
  "run_all [] h = Inr h"
| "run_all (f # fs) h = (case f h of Inl x \<Rightarrow> Inl x | Inr h' \<Rightarrow> run_all fs h')"

subsection \<open>Helpers\<close>

definition log_event :: "event \<Rightarrow> ('z, 'f) hand \<Rightarrow> ('z, 'f) hand" where
  "log_event e h = h\<lparr>trace := trace h @ [e]\<rparr>"

text \<open>\<^verbatim>\<open>rospy.sleep(d)\<close> blocks the caller; the model records the call.\<close>

definition rospy_sleep :: "real \<Rightarrow> ('z, 'f) hand \<Rightarrow> ('z, 'f) hand" where
  "rospy_sleep d h = log_event (Sleep d) h"

text \<open>\<^verbatim>\<open>for ID, motor in self.motors.items(): motor = f(motor)\<close>\<close>

definition for_each_motor :: "('m \<Rightarrow> 'm) \<Rightarrow> 'm dict \<Rightarrow> 'm dict" where
  "for_each_motor f ms = map (\<lambda>(ID, m). (ID, f m)) ms"

text \<open>\<^verbatim>\<open>any([p(motor) for ID, motor in self.motors.items()])\<close>\<close>

definition any_motor :: "('m \<Rightarrow> bool) \<Rightarrow> 'm dict \<Rightarrow> bool" where
  "any_motor p ms = list_ex (\<lambda>(ID, m). p m) ms"

text \<open>The finger object a motor refers to, as the motor sees it.\<close>

definition finger_of :: "'f dict \<Rightarrow> 'z motor_scheme \<Rightarrow> 'f option" where
  "finger_of fs m = (case finger m of None \<Rightarrow> None | Some k \<Rightarrow> map_of fs k)"

text \<open>\<^verbatim>\<open>xs[i]\<close> for a constant index \<open>i \<ge> 0\<close>: out of range raises \<^verbatim>\<open>IndexError\<close>.\<close>

definition index :: "'a list \<Rightarrow> nat \<Rightarrow> 'a option" where
  "index xs i = (if i < length xs then Some (xs ! i) else None)"

subsection \<open>The setters of the base class, called on the hand\<close>

definition call :: "hand_method \<Rightarrow> (('z, 'f) hand \<Rightarrow> ('z, 'f) hand) \<Rightarrow> ('z, 'f) hand \<Rightarrow> ('z, 'f) hand" where
  "call m body h = log_event (Leave m) (body (log_event (Enter m) h))"

definition set_speeds ::
  "('z, 'f, 'v, 'p, 't, 'ms, 'fs) deps \<Rightarrow> 'v \<Rightarrow> ('z, 'f) hand \<Rightarrow> ('z, 'f) hand" where
  "set_speeds D speed = call Set_speeds (\<lambda>h. h\<lparr>motors := base_set_speeds D speed (motors h)\<rparr>)"

definition set_angles ::
  "('z, 'f, 'v, 'p, 't, 'ms, 'fs) deps \<Rightarrow> 'p \<Rightarrow> ('z, 'f) hand \<Rightarrow> ('z, 'f) hand" where
  "set_angles D ps = call Set_angles (\<lambda>h. h\<lparr>motors := base_set_angles D ps (motors h)\<rparr>)"

definition set_velocities ::
  "('z, 'f, 'v, 'p, 't, 'ms, 'fs) deps \<Rightarrow> 'v \<Rightarrow> ('z, 'f) hand \<Rightarrow> ('z, 'f) hand" where
  "set_velocities D vel =
     call Set_velocities (\<lambda>h. h\<lparr>motors := base_set_velocities D vel (motors h)\<rparr>)"

definition set_force_cmds ::
  "('z, 'f, 'v, 'p, 't, 'ms, 'fs) deps \<Rightarrow> 't \<Rightarrow> ('z, 'f) hand \<Rightarrow> ('z, 'f) hand" where
  "set_force_cmds D torque =
     call Set_force_cmds (\<lambda>h. h\<lparr>motors := base_set_force_cmds D torque (motors h)\<rparr>)"

definition reset_speeds ::
  "('z, 'f, 'v, 'p, 't, 'ms, 'fs) deps \<Rightarrow> ('z, 'f) hand \<Rightarrow> ('z, 'f) hand" where
  "reset_speeds D = call Reset_speeds (\<lambda>h. h\<lparr>motors := base_reset_speeds D (motors h)\<rparr>)"

subsection \<open>The tactile stops\<close>

definition disable_tactile_stops ::
  "('z, 'f, 'v, 'p, 't, 'ms, 'fs) deps \<Rightarrow> ('z, 'f) hand \<Rightarrow> ('z, 'f) hand" where
  "disable_tactile_stops D =
     call Disable_tactile_stops (\<lambda>h.
       let h1 = h\<lparr>tactile_stops_enabled := False\<rparr>;
           h2 = h1\<lparr>motors :=
                  for_each_motor (\<lambda>m. motor_disable_tactile_stops D (finger_of (fingers h1) m) m)
                    (motors h1)\<rparr>
       in rospy_sleep 0.05 h2)"

definition enable_tactile_stops ::
  "('z, 'f, 'v, 'p, 't, 'ms, 'fs) deps \<Rightarrow> ('z, 'f) hand \<Rightarrow> ('z, 'f) hand" where
  "enable_tactile_stops D =
     call Enable_tactile_stops (\<lambda>h.
       let h1 = rospy_sleep 0.07 h;
           h2 = h1\<lparr>tactile_stops_enabled := True\<rparr>
       in h2\<lparr>motors :=
               for_each_motor (\<lambda>m. motor_enable_tactile_stops D (finger_of (fingers h2) m) m)
                 (motors h2)\<rparr>)"

subsection \<open>The command callbacks\<close>

definition receive_cmd_cb ::
  "('z, 'f, 'v, 'p, 't, 'ms, 'fs) deps \<Rightarrow> ('v, 'p) command \<Rightarrow> ('z, 'f) hand \<Rightarrow> ('z, 'f) hand" where
  "receive_cmd_cb D data h =
     (let reset = tactile_stops_enabled h;
          h1 = (if reset then disable_tactile_stops D h else h);
          h2 = set_speeds D (velocity data) h1;
          h3 = set_angles D (pose data) h2
      in if reset then enable_tactile_stops D h3 else h3)"

definition receive_angle_cmd_cb ::
  "('z, 'f, 'v, 'p, 't, 'ms, 'fs) deps \<Rightarrow> 'p \<Rightarrow> ('z, 'f) hand \<Rightarrow> ('z, 'f) hand" where
  "receive_angle_cmd_cb D data h =
     (let reset = tactile_stops_enabled h;
          h1 = (if reset then disable_tactile_stops D h else h);
          h2 = reset_speeds D h1;
          h3 = set_angles D data h2
      in if reset then enable_tactile_stops D h3 else h3)"

definition receive_vel_cmd_cb ::
  "('z, 'f, 'v, 'p, 't, 'ms, 'fs) deps \<Rightarrow> 'v \<Rightarrow> ('z, 'f) hand \<Rightarrow> ('z, 'f) hand" where
  "receive_vel_cmd_cb D data h =
     (let reset = tactile_stops_enabled h;
          h1 = (if reset then disable_tactile_stops D h else h);
          h2 = set_velocities D data h1
      in if reset then enable_tactile_stops D h2 else h2)"

definition receive_force_cmd_cb ::
  "('z, 'f, 'v, 'p, 't, 'ms, 'fs) deps \<Rightarrow> 't \<Rightarrow> ('z, 'f) hand \<Rightarrow> ('z, 'f) hand" where
  "receive_force_cmd_cb D data h =
     (let h1 = disable_tactile_stops D h;
          h2 = reset_speeds D h1
      in set_force_cmds D data h2)"

subsection \<open>Construction\<close>

text \<open>
  Modelled from the spec: \<^verbatim>\<open>ReflexHand.__init__\<close> is not among the sources. It stores the
  name and creates the fixed set of four actuators, three finger actuators and the
  preshape actuator (section 3), under the keys the subclass looks them up by.
\<close>

definition ReflexHand_motors ::
  "('z, 'f, 'v, 'p, 't, 'ms, 'fs) deps \<Rightarrow> string \<Rightarrow> 'z motor_scheme dict" where
  "ReflexHand_motors D name =
     [(name @ ''_f1'', new_motor D (name @ ''_f1'')),
      (name @ ''_f2'', new_motor D (name @ ''_f2'')),
      (name @ ''_f3'', new_motor D (name @ ''_f3'')),
      (name @ ''_preshape'', new_motor D (name @ ''_preshape''))]"

fun connect_motors_to_fingers ::
  "string \<Rightarrow> 'f dict \<Rightarrow> 'z motor_scheme dict \<Rightarrow> error + 'z motor_scheme dict" where
  "connect_motors_to_fingers ns fs [] = Inr []"
| "connect_motors_to_fingers ns fs ((ID, m) # rest) =
     (if ID \<noteq> ns @ ''_preshape'' then
        (case map_of fs ID of
           None \<Rightarrow> Inl (KeyError ID)
         | Some f \<Rightarrow>
             (case connect_motors_to_fingers ns fs rest of
                Inl e \<Rightarrow> Inl e
              | Inr rest' \<Rightarrow> Inr ((ID, m\<lparr>finger := Some ID\<rparr>) # rest')))
      else
        (case connect_motors_to_fingers ns fs rest of
           Inl e \<Rightarrow> Inl e
         | Inr rest' \<Rightarrow> Inr ((ID, m) # rest')))"

text \<open>\<^verbatim>\<open>ReflexTakktileHand.__init__\<close>; \<open>now\<close> is what \<^verbatim>\<open>rospy.get_rostime()\<close> returns.\<close>

definition init ::
  "('z, 'f, 'v, 'p, 't, 'ms, 'fs) deps \<Rightarrow> rostime \<Rightarrow> error + ('z, 'f) hand" where
  "init D now =
     (let ns = ''/reflex_takktile'';
          fs = [(ns @ ''_f1'', new_finger D),
                (ns @ ''_f2'', new_finger D),
                (ns @ ''_f3'', new_finger D)]
      in case connect_motors_to_fingers ns fs (ReflexHand_motors D ns) of
           Inl e \<Rightarrow> Inl e
         | Inr ms \<Rightarrow>
             Inr \<lparr>namespace = ns, motors = ms, fingers = fs,
                  tactile_stops_enabled = False, comms_timeout = 5.0,
                  latest_update = now, trace = []\<rparr>)"

subsection \<open>Feedback\<close>

text \<open>
  \<^verbatim>\<open>self.motors[key]._receive_state_cb(data.motor[i])\<close>: the motor is looked up first, then
  the record.
\<close>

definition motor_state_step ::
  "('z, 'f, 'v, 'p, 't, 'ms, 'fs) deps \<Rightarrow> string \<Rightarrow> nat \<Rightarrow> ('ms, 'fs) hand_msg \<Rightarrow>
   ('z, 'f) hand \<Rightarrow> ('z, 'f) outcome" where
  "motor_state_step D key i data h =
     (case map_of (motors h) key of
        None \<Rightarrow> Inl (KeyError key, h)
      | Some m \<Rightarrow>
          (case index (msg_motor data) i of
             None \<Rightarrow> Inl (IndexError, h)
           | Some r \<Rightarrow>
               Inr (h\<lparr>motors :=
                      AList.update key (motor_receive_state_cb D r (finger_of (fingers h) m) m)
                        (motors h)\<rparr>)))"

definition finger_state_step ::
  "('z, 'f, 'v, 'p, 't, 'ms, 'fs) deps \<Rightarrow> string \<Rightarrow> nat \<Rightarrow> ('ms, 'fs) hand_msg \<Rightarrow>
   ('z, 'f) hand \<Rightarrow> ('z, 'f) outcome" where
  "finger_state_step D key i data h =
     (case map_of (fingers h) key of
        None \<Rightarrow> Inl (KeyError key, h)
      | Some f \<Rightarrow>
          (case index (msg_finger data) i of
             None \<Rightarrow> Inl (IndexError, h)
           | Some r \<Rightarrow>
               Inr (h\<lparr>fingers := AList.update key (finger_receive_state_cb D r f) (fingers h)\<rparr>)))"

definition receive_hand_state_cb ::
  "('z, 'f, 'v, 'p, 't, 'ms, 'fs) deps \<Rightarrow> rostime \<Rightarrow> ('ms, 'fs) hand_msg \<Rightarrow>
   ('z, 'f) hand \<Rightarrow> ('z, 'f) outcome" where
  "receive_hand_state_cb D now data h =
     (let h0 = h\<lparr>latest_update := now\<rparr>; ns = namespace h0
      in run_all
           [motor_state_step D (ns @ ''_f1'') 0 data,
            motor_state_step D (ns @ ''_f2'') 1 data,
            motor_state_step D (ns @ ''_f3'') 2 data,
            motor_state_step D (ns @ ''_preshape'') 3 data,
            finger_state_step D (ns @ ''_f1'') 0 data,
            finger_state_step D (ns @ ''_f2'') 1 data,
            finger_state_step D (ns @ ''_f3'') 2 data] h0)"

subsection \<open>Calibration\<close>

definition calibrate_fingers :: "('z, 'f) hand \<Rightarrow> ('z, 'f) hand" where
  "calibrate_fingers h = log_event Calibrate_fingers_service h"

definition calibrate_tactile :: "('z, 'f) hand \<Rightarrow> ('z, 'f) hand" where
  "calibrate_tactile h = log_event Calibrate_tactile_service h"

subsection \<open>Publishing the commands\<close>

text \<open>
  The four setpoints of a batched command, in the order \<^verbatim>\<open>f1\<close>, \<^verbatim>\<open>f2\<close>, \<^verbatim>\<open>f3\<close>, \<^verbatim>\<open>preshape\<close>,
  under the keys the source spells out; a missing key raises at the first lookup that
  misses.
\<close>

fun lookup_all :: "'m dict \<Rightarrow> ('m \<Rightarrow> real) \<Rightarrow> string list \<Rightarrow> error + real list" where
  "lookup_all ms get [] = Inr []"
| "lookup_all ms get (k # ks) =
     (case map_of ms k of
        None \<Rightarrow> Inl (KeyError k)
      | Some m \<Rightarrow>
          (case lookup_all ms get ks of
             Inl e \<Rightarrow> Inl e
           | Inr vs \<Rightarrow> Inr (get m # vs)))"

definition command_keys :: "string list" where
  "command_keys =
     [''/reflex_takktile_f1'', ''/reflex_takktile_f2'', ''/reflex_takktile_f3'',
      ''/reflex_takktile_preshape'']"

definition publish_speed_commands ::
  "('z, 'f, 'v, 'p, 't, 'ms, 'fs) deps \<Rightarrow> ('z, 'f) hand \<Rightarrow> ('z, 'f) outcome" where
  "publish_speed_commands D h =
     (let h1 = h\<lparr>motors := for_each_motor (\<lambda>m. m\<lparr>speed_update_occurred := False\<rparr>) (motors h)\<rparr>
      in case lookup_all (motors h1) (get_commanded_speed D) command_keys of
           Inl e \<Rightarrow> Inl (e, h1)
         | Inr motor_speed_cmd \<Rightarrow> Inr (log_event (Set_speed_service motor_speed_cmd) h1))"

definition publish_position_commands ::
  "('z, 'f, 'v, 'p, 't, 'ms, 'fs) deps \<Rightarrow> ('z, 'f) hand \<Rightarrow> ('z, 'f) outcome" where
  "publish_position_commands D h =
     (let h1 = h\<lparr>motors := for_each_motor (\<lambda>m. m\<lparr>position_update_occurred := False\<rparr>) (motors h)\<rparr>
      in case lookup_all (motors h1) (get_commanded_position D) command_keys of
           Inl e \<Rightarrow> Inl (e, h1)
         | Inr motor_pos_cmd \<Rightarrow> Inr (rospy_sleep 0.01 (log_event (Motor_cmd_pub motor_pos_cmd) h1)))"

definition publish_torque_commands ::
  "('z, 'f, 'v, 'p, 't, 'ms, 'fs) deps \<Rightarrow> ('z, 'f) hand \<Rightarrow> ('z, 'f) outcome" where
  "publish_torque_commands D h =
     (let h1 = h\<lparr>motors := for_each_motor (\<lambda>m. m\<lparr>torque_update_occurred := False\<rparr>) (motors h)\<rparr>
      in case lookup_all (motors h1) (get_commanded_torque D) command_keys of
           Inl e \<Rightarrow> Inl (e, h1)
         | Inr motor_torque_cmd \<Rightarrow>
             Inr (rospy_sleep 0.01 (log_event (Motor_torque_pub motor_torque_cmd) h1)))"

definition publish_motor_commands ::
  "('z, 'f, 'v, 'p, 't, 'ms, 'fs) deps \<Rightarrow> ('z, 'f) hand \<Rightarrow> ('z, 'f) outcome" where
  "publish_motor_commands D h =
     (if any_motor speed_update_occurred (motors h) then publish_speed_commands D h
      else if any_motor position_update_occurred (motors h) then publish_position_commands D h
      else if any_motor torque_update_occurred (motors h) then publish_torque_commands D h
      else Inr h)"

subsection \<open>The loop of main\<close>

text \<open>
  The test of the loop: \<^verbatim>\<open>rospy.get_rostime().secs > hand.latest_update.secs +
  hand.comms_timeout\<close>. The attribute \<^verbatim>\<open>secs\<close> is the whole seconds of a time, an integer;
  the sum with the timeout is a float, exact at the magnitudes of a clock reading.
\<close>

definition comms_timed_out :: "rostime \<Rightarrow> ('z, 'f) hand \<Rightarrow> bool" where
  "comms_timed_out now h \<longleftrightarrow> real_of_int (secs now) > real_of_int (secs (latest_update h)) + comms_timeout h"

text \<open>
  One iteration of the loop; \<open>now\<close> is the clock reading of its test. The second
  component tells whether \<^verbatim>\<open>rospy.signal_shutdown\<close> was called.
\<close>

definition main_iteration ::
  "('z, 'f, 'v, 'p, 't, 'ms, 'fs) deps \<Rightarrow> rostime \<Rightarrow> ('z, 'f) hand \<Rightarrow>
   (error \<times> ('z, 'f) hand) + (('z, 'f) hand \<times> bool)" where
  "main_iteration D now h =
     (case publish_motor_commands D h of
        Inl x \<Rightarrow> Inl x
      | Inr h1 \<Rightarrow>
          (if comms_timed_out now h1
           then Inr (log_event Rate_sleep (log_event (Signal_shutdown ''Comms timeout'') (log_event Logfatal h1)), True)
           else Inr (log_event Rate_sleep h1, False)))"

text \<open>
  The loop runs while \<^verbatim>\<open>rospy.is_shutdown()\<close> is false. The list holds the clock readings of
  the iterations that the process lives to make; the loop also ends at the iteration
  that signals the shutdown, and at an exception.
\<close>

fun main_loop ::
  "('z, 'f, 'v, 'p, 't, 'ms, 'fs) deps \<Rightarrow> rostime list \<Rightarrow> ('z, 'f) hand \<Rightarrow> ('z, 'f) outcome" where
  "main_loop D [] h = Inr h"
| "main_loop D (now # rest) h =
     (case main_iteration D now h of
        Inl x \<Rightarrow> Inl x
      | Inr (h', down) \<Rightarrow> if down then Inr h' else main_loop D rest h')"

subsection \<open>What reaches the hand\<close>

text \<open>
  The callbacks and services the transport can invoke on the hand, and the tick of the
  loop. An exception of a callback is caught by the transport; the hand keeps the state
  it had at the raise.
\<close>

datatype ('v, 'p, 't, 'ms, 'fs) inbound =
  Cmd "('v, 'p) command"
  | Angle_cmd 'p
  | Vel_cmd 'v
  | Force_cmd 't
  | Hand_state rostime "('ms, 'fs) hand_msg"
  | Enable_service
  | Disable_service
  | Tick

fun deliver ::
  "('z, 'f, 'v, 'p, 't, 'ms, 'fs) deps \<Rightarrow> ('v, 'p, 't, 'ms, 'fs) inbound \<Rightarrow>
   ('z, 'f) hand \<Rightarrow> ('z, 'f) hand" where
  "deliver D (Cmd c) h = receive_cmd_cb D c h"
| "deliver D (Angle_cmd p) h = receive_angle_cmd_cb D p h"
| "deliver D (Vel_cmd v) h = receive_vel_cmd_cb D v h"
| "deliver D (Force_cmd t) h = receive_force_cmd_cb D t h"
| "deliver D (Hand_state now m) h = state_of (receive_hand_state_cb D now m h)"
| "deliver D Enable_service h = enable_tactile_stops D h"
| "deliver D Disable_service h = disable_tactile_stops D h"
| "deliver D Tick h = state_of (publish_motor_commands D h)"

subsection \<open>Reading a trace\<close>




text \<open>
  \<^verbatim>\<open>t + d\<close> of \<^verbatim>\<open>rospy\<close>, for a time \<open>t\<close> and a duration of \<open>d\<close> nanoseconds: the sum is
  brought back to a nanosecond part below one second.
\<close>

definition plus_nsecs :: "rostime \<Rightarrow> int \<Rightarrow> rostime" where
  "plus_nsecs t d =
     \<lparr>secs = secs t + (nsecs t + d) div 1000000000, nsecs = (nsecs t + d) mod 1000000000\<rparr>"



text \<open>One dirty flag of every motor, by key.\<close>

definition flags_of :: "('m \<Rightarrow> bool) \<Rightarrow> 'm dict \<Rightarrow> (string \<times> bool) list" where
  "flags_of flag ms = map (\<lambda>(ID, m). (ID, flag m)) ms"


subsection \<open>An instance of the parameters\<close>

text \<open>
  For the closed examples: a motor that keeps the setpoints of the data model of the
  specification (section 3) and the last record fed back to it. A setter stores the
  values of a command in the order \<^verbatim>\<open>f1\<close>, \<^verbatim>\<open>f2\<close>, \<^verbatim>\<open>f3\<close>, \<^verbatim>\<open>preshape\<close> and raises the
  dirty flag of its class; a finger keeps the last record fed back to it.
\<close>

record setpoints = motor +
  commanded_speed :: real
  commanded_position :: real
  commanded_torque :: real
  measured :: real

definition assign ::
  "(real \<Rightarrow> setpoints \<Rightarrow> setpoints) \<Rightarrow> real list \<Rightarrow> setpoints dict \<Rightarrow> setpoints dict" where
  "assign upd vs ms =
     fold (\<lambda>(k, v) ms. case map_of ms k of None \<Rightarrow> ms | Some m \<Rightarrow> AList.update k (upd v m) ms)
       (zip command_keys vs) ms"

definition example_deps ::
  "(unit setpoints_ext, real, real list, real list, real list, real, real) deps" where
  "example_deps =
     \<lparr>new_motor = (\<lambda>name.
        \<lparr>speed_update_occurred = False, position_update_occurred = False,
         torque_update_occurred = False, finger = None,
         commanded_speed = 0, commanded_position = 0, commanded_torque = 0, measured = 0\<rparr>),
      new_finger = 0,
      base_set_speeds = assign (\<lambda>v m. m\<lparr>commanded_speed := v, speed_update_occurred := True\<rparr>),
      base_set_angles =
        assign (\<lambda>v m. m\<lparr>commanded_position := v, position_update_occurred := True\<rparr>),
      base_set_velocities =
        assign (\<lambda>v m. m\<lparr>commanded_speed := v, speed_update_occurred := True\<rparr>),
      base_set_force_cmds =
        assign (\<lambda>v m. m\<lparr>commanded_torque := v, torque_update_occurred := True\<rparr>),
      base_reset_speeds =
        for_each_motor (\<lambda>m. m\<lparr>commanded_speed := 1, speed_update_occurred := True\<rparr>),
      motor_disable_tactile_stops = (\<lambda>f m. m),
      motor_enable_tactile_stops = (\<lambda>f m. m),
      motor_receive_state_cb = (\<lambda>r f m. m\<lparr>measured := r\<rparr>),
      get_commanded_speed = commanded_speed,
      get_commanded_position = commanded_position,
      get_commanded_torque = commanded_torque,
      finger_receive_state_cb = (\<lambda>r f. r)\<rparr>"

definition example_motor :: "string option \<Rightarrow> setpoints" where
  "example_motor f =
     \<lparr>speed_update_occurred = False, position_update_occurred = False,
      torque_update_occurred = False, finger = f,
      commanded_speed = 0, commanded_position = 0, commanded_torque = 0, measured = 0\<rparr>"

text \<open>The hand as its constructor leaves it at the time of 100 seconds.\<close>

definition example_hand :: "(unit setpoints_ext, real) hand" where
  "example_hand =
     \<lparr>namespace = ''/reflex_takktile'',
      motors =
        [(''/reflex_takktile_f1'', example_motor (Some ''/reflex_takktile_f1'')),
         (''/reflex_takktile_f2'', example_motor (Some ''/reflex_takktile_f2'')),
         (''/reflex_takktile_f3'', example_motor (Some ''/reflex_takktile_f3'')),
         (''/reflex_takktile_preshape'', example_motor None)],
      fingers =
        [(''/reflex_takktile_f1'', 0), (''/reflex_takktile_f2'', 0), (''/reflex_takktile_f3'', 0)],
      tactile_stops_enabled = False, comms_timeout = 5.0,
      latest_update = \<lparr>secs = 100, nsecs = 0\<rparr>, trace = []\<rparr>"



text \<open>Inbound events for the closed examples; none of them enables the tactile stops.\<close>

definition example_inbounds :: "(real list, real list, real list, real, real) inbound list" where
  "example_inbounds =
     [Angle_cmd [0.1, 0.2, 0.3, 0], Tick,
      Cmd \<lparr>velocity = [1, 1, 1, 1], pose = [1, 2, 3, 4]\<rparr>, Vel_cmd [2, 2, 2, 2],
      Hand_state \<lparr>secs = 101, nsecs = 0\<rparr> \<lparr>msg_motor = [1, 2, 3, 4], msg_finger = [5, 6, 7]\<rparr>,
      Disable_service, Force_cmd [1, 1, 1, 1]]"

section \<open>Properties\<close>

subsection \<open>What the setters and the tactile stops change\<close>

lemma trace_log_event: "trace (log_event e h) = trace h @ [e]"
  by (simp add: log_event_def)

lemma trace_disable:
  "trace (disable_tactile_stops D h) =
     trace h @ [Enter Disable_tactile_stops, Sleep 0.05, Leave Disable_tactile_stops]"
  by (simp add: disable_tactile_stops_def call_def log_event_def rospy_sleep_def Let_def)

lemma trace_enable:
  "trace (enable_tactile_stops D h) =
     trace h @ [Enter Enable_tactile_stops, Sleep 0.07, Leave Enable_tactile_stops]"
  by (simp add: enable_tactile_stops_def call_def log_event_def rospy_sleep_def Let_def)

lemma trace_set_speeds: "trace (set_speeds D v h) = trace h @ [Enter Set_speeds, Leave Set_speeds]"
  by (simp add: set_speeds_def call_def log_event_def)

lemma trace_set_angles: "trace (set_angles D v h) = trace h @ [Enter Set_angles, Leave Set_angles]"
  by (simp add: set_angles_def call_def log_event_def)

lemma trace_set_velocities:
  "trace (set_velocities D v h) = trace h @ [Enter Set_velocities, Leave Set_velocities]"
  by (simp add: set_velocities_def call_def log_event_def)

lemma trace_set_force_cmds:
  "trace (set_force_cmds D v h) = trace h @ [Enter Set_force_cmds, Leave Set_force_cmds]"
  by (simp add: set_force_cmds_def call_def log_event_def)

lemma trace_reset_speeds:
  "trace (reset_speeds D h) = trace h @ [Enter Reset_speeds, Leave Reset_speeds]"
  by (simp add: reset_speeds_def call_def log_event_def)

lemmas trace_simps = trace_disable trace_enable trace_set_speeds trace_set_angles
  trace_set_velocities trace_set_force_cmds trace_reset_speeds

lemma motors_disable:
  "motors (disable_tactile_stops D h) =
     for_each_motor (\<lambda>m. motor_disable_tactile_stops D (finger_of (fingers h) m) m) (motors h)"
  by (simp add: disable_tactile_stops_def call_def log_event_def rospy_sleep_def Let_def)

lemma motors_enable:
  "motors (enable_tactile_stops D h) =
     for_each_motor (\<lambda>m. motor_enable_tactile_stops D (finger_of (fingers h) m) m) (motors h)"
  by (simp add: enable_tactile_stops_def call_def log_event_def rospy_sleep_def Let_def)

lemma motors_setters:
  "motors (set_speeds D v h) = base_set_speeds D v (motors h)"
  "motors (set_angles D p h) = base_set_angles D p (motors h)"
  "motors (set_velocities D v h) = base_set_velocities D v (motors h)"
  "motors (set_force_cmds D t h) = base_set_force_cmds D t (motors h)"
  "motors (reset_speeds D h) = base_reset_speeds D (motors h)"
  by (simp_all add: set_speeds_def set_angles_def set_velocities_def set_force_cmds_def
      reset_speeds_def call_def log_event_def)

lemma fingers_keep:
  "fingers (disable_tactile_stops D h) = fingers h"
  "fingers (enable_tactile_stops D h) = fingers h"
  "fingers (set_speeds D v h) = fingers h"
  "fingers (set_angles D p h) = fingers h"
  "fingers (set_velocities D v h) = fingers h"
  "fingers (set_force_cmds D t h) = fingers h"
  "fingers (reset_speeds D h) = fingers h"
  by (simp_all add: disable_tactile_stops_def enable_tactile_stops_def set_speeds_def
      set_angles_def set_velocities_def set_force_cmds_def reset_speeds_def call_def log_event_def
      rospy_sleep_def Let_def)

lemma stops_disable: "tactile_stops_enabled (disable_tactile_stops D h) = False"
  by (simp add: disable_tactile_stops_def call_def log_event_def rospy_sleep_def Let_def)

lemma stops_enable: "tactile_stops_enabled (enable_tactile_stops D h) = True"
  by (simp add: enable_tactile_stops_def call_def log_event_def rospy_sleep_def Let_def)

lemma stops_setters:
  "tactile_stops_enabled (set_speeds D v h) = tactile_stops_enabled h"
  "tactile_stops_enabled (set_angles D p h) = tactile_stops_enabled h"
  "tactile_stops_enabled (set_velocities D v h) = tactile_stops_enabled h"
  "tactile_stops_enabled (set_force_cmds D t h) = tactile_stops_enabled h"
  "tactile_stops_enabled (reset_speeds D h) = tactile_stops_enabled h"
  by (simp_all add: set_speeds_def set_angles_def set_velocities_def set_force_cmds_def
      reset_speeds_def call_def log_event_def)


subsection \<open>The command callbacks\<close>

lemma trace_receive_cmd_cb:
  "trace (receive_cmd_cb D c h) =
     trace h
     @ (if tactile_stops_enabled h
        then [Enter Disable_tactile_stops, Sleep 0.05, Leave Disable_tactile_stops] else [])
     @ [Enter Set_speeds, Leave Set_speeds, Enter Set_angles, Leave Set_angles]
     @ (if tactile_stops_enabled h
        then [Enter Enable_tactile_stops, Sleep 0.07, Leave Enable_tactile_stops] else [])"
  by (simp add: receive_cmd_cb_def Let_def trace_simps)

lemma trace_receive_angle_cmd_cb:
  "trace (receive_angle_cmd_cb D p h) =
     trace h
     @ (if tactile_stops_enabled h
        then [Enter Disable_tactile_stops, Sleep 0.05, Leave Disable_tactile_stops] else [])
     @ [Enter Reset_speeds, Leave Reset_speeds, Enter Set_angles, Leave Set_angles]
     @ (if tactile_stops_enabled h
        then [Enter Enable_tactile_stops, Sleep 0.07, Leave Enable_tactile_stops] else [])"
  by (simp add: receive_angle_cmd_cb_def Let_def trace_simps)

lemma trace_receive_vel_cmd_cb:
  "trace (receive_vel_cmd_cb D v h) =
     trace h
     @ (if tactile_stops_enabled h
        then [Enter Disable_tactile_stops, Sleep 0.05, Leave Disable_tactile_stops] else [])
     @ [Enter Set_velocities, Leave Set_velocities]
     @ (if tactile_stops_enabled h
        then [Enter Enable_tactile_stops, Sleep 0.07, Leave Enable_tactile_stops] else [])"
  by (simp add: receive_vel_cmd_cb_def Let_def trace_simps)


lemma motors_receive_cmd_cb:
  "motors (receive_cmd_cb D c h) =
     (if tactile_stops_enabled h then
        for_each_motor (\<lambda>m. motor_enable_tactile_stops D (finger_of (fingers h) m) m)
          (base_set_angles D (pose c) (base_set_speeds D (velocity c)
            (for_each_motor (\<lambda>m. motor_disable_tactile_stops D (finger_of (fingers h) m) m)
               (motors h))))
      else base_set_angles D (pose c) (base_set_speeds D (velocity c) (motors h)))"
  by (simp add: receive_cmd_cb_def Let_def motors_disable motors_enable motors_setters fingers_keep)

lemma motors_receive_angle_cmd_cb:
  "motors (receive_angle_cmd_cb D p h) =
     (if tactile_stops_enabled h then
        for_each_motor (\<lambda>m. motor_enable_tactile_stops D (finger_of (fingers h) m) m)
          (base_set_angles D p (base_reset_speeds D
            (for_each_motor (\<lambda>m. motor_disable_tactile_stops D (finger_of (fingers h) m) m)
               (motors h))))
      else base_set_angles D p (base_reset_speeds D (motors h)))"
  by (simp add: receive_angle_cmd_cb_def Let_def motors_disable motors_enable motors_setters
      fingers_keep)

lemma motors_receive_vel_cmd_cb:
  "motors (receive_vel_cmd_cb D v h) =
     (if tactile_stops_enabled h then
        for_each_motor (\<lambda>m. motor_enable_tactile_stops D (finger_of (fingers h) m) m)
          (base_set_velocities D v
            (for_each_motor (\<lambda>m. motor_disable_tactile_stops D (finger_of (fingers h) m) m)
               (motors h)))
      else base_set_velocities D v (motors h))"
  by (simp add: receive_vel_cmd_cb_def Let_def motors_disable motors_enable motors_setters
      fingers_keep)


lemma stops_receive_cmd_cb:
  "tactile_stops_enabled (receive_cmd_cb D c h) = tactile_stops_enabled h"
  by (simp add: receive_cmd_cb_def Let_def stops_disable stops_enable stops_setters)

lemma stops_receive_angle_cmd_cb:
  "tactile_stops_enabled (receive_angle_cmd_cb D p h) = tactile_stops_enabled h"
  by (simp add: receive_angle_cmd_cb_def Let_def stops_disable stops_enable stops_setters)

lemma stops_receive_vel_cmd_cb:
  "tactile_stops_enabled (receive_vel_cmd_cb D v h) = tactile_stops_enabled h"
  by (simp add: receive_vel_cmd_cb_def Let_def stops_disable stops_enable stops_setters)

lemma stops_receive_force_cmd_cb:
  "tactile_stops_enabled (receive_force_cmd_cb D t h) = False"
  by (simp add: receive_force_cmd_cb_def Let_def stops_disable stops_setters)

subsection \<open>The flag of the tactile stops\<close>

lemma stops_motor_state_step:
  "tactile_stops_enabled (state_of (motor_state_step D k i data h)) = tactile_stops_enabled h"
  by (simp add: motor_state_step_def state_of_def split: option.splits)

lemma stops_finger_state_step:
  "tactile_stops_enabled (state_of (finger_state_step D k i data h)) = tactile_stops_enabled h"
  by (simp add: finger_state_step_def state_of_def split: option.splits)

lemma run_all_keeps:
  assumes "\<And>f h. f \<in> set fs \<Longrightarrow> P (state_of (f h)) = P h"
  shows "P (state_of (run_all fs h)) = P h"
  using assms
proof (induction fs arbitrary: h)
  case Nil
  then show ?case by (simp add: state_of_def)
next
  case (Cons f fs)
  have step: "P (state_of (f h)) = P h" using Cons.prems by simp
  show ?case
  proof (cases "f h")
    case (Inl x)
    with step show ?thesis by (simp add: state_of_def)
  next
    case (Inr h')
    have "P (state_of (run_all fs h')) = P h'" using Cons.IH Cons.prems by simp
    with step Inr show ?thesis by (simp add: state_of_def)
  qed
qed

lemma stops_receive_hand_state_cb:
  "tactile_stops_enabled (state_of (receive_hand_state_cb D now data h)) = tactile_stops_enabled h"
proof -
  let ?h0 = "h\<lparr>latest_update := now\<rparr>"
  have "tactile_stops_enabled (state_of (receive_hand_state_cb D now data h)) =
        tactile_stops_enabled ?h0"
    unfolding receive_hand_state_cb_def Let_def
    by (rule run_all_keeps) (auto simp: stops_motor_state_step stops_finger_state_step)
  then show ?thesis by simp
qed

lemma stops_publish:
  "tactile_stops_enabled (state_of (publish_speed_commands D h)) = tactile_stops_enabled h"
  "tactile_stops_enabled (state_of (publish_position_commands D h)) = tactile_stops_enabled h"
  "tactile_stops_enabled (state_of (publish_torque_commands D h)) = tactile_stops_enabled h"
  by (simp_all add: publish_speed_commands_def publish_position_commands_def
      publish_torque_commands_def state_of_def Let_def log_event_def rospy_sleep_def
      split: sum.splits)

lemma stops_publish_motor_commands:
  "tactile_stops_enabled (state_of (publish_motor_commands D h)) = tactile_stops_enabled h"
  by (simp add: publish_motor_commands_def stops_publish) (simp add: state_of_def)

lemma stops_deliver:
  "ev \<noteq> Enable_service \<Longrightarrow> \<not> tactile_stops_enabled h \<Longrightarrow> \<not> tactile_stops_enabled (deliver D ev h)"
  by (cases ev)
    (simp_all add: stops_receive_cmd_cb stops_receive_angle_cmd_cb stops_receive_vel_cmd_cb
      stops_receive_force_cmd_cb stops_receive_hand_state_cb stops_disable
      stops_publish_motor_commands)

lemma stops_fold_deliver:
  "Enable_service \<notin> set evs \<Longrightarrow> \<not> tactile_stops_enabled h \<Longrightarrow>
   \<not> tactile_stops_enabled (fold (deliver D) evs h)"
proof (induction evs arbitrary: h)
  case Nil
  then show ?case by simp
next
  case (Cons ev evs)
  have "\<not> tactile_stops_enabled (deliver D ev h)"
    using Cons.prems by (intro stops_deliver) auto
  then show ?case using Cons by simp
qed

text \<open>
  Claim C6. A force command disables the tactile stops whatever the flag was before, and
  does not enable them again: after the handler has returned, the flag is false, and it
  stays false through every later sequence of callbacks, services and ticks in which the
  service that enables the tactile stops is not called.
\<close>

theorem force_override:
  "\<not> tactile_stops_enabled (receive_force_cmd_cb D data h) \<and>
   (Enable_service \<notin> set evs \<longrightarrow>
      \<not> tactile_stops_enabled (fold (deliver D) evs (receive_force_cmd_cb D data h)))"
  by (simp add: stops_receive_force_cmd_cb stops_fold_deliver)

text \<open>
  The tactile stops are enabled, a force command arrives, and seven further inbound
  events follow, none of them the enabling service.
\<close>

theorem force_override_witness:
  "tactile_stops_enabled (example_hand\<lparr>tactile_stops_enabled := True\<rparr>) \<and>
   Enable_service \<notin> set example_inbounds \<and>
   \<not> tactile_stops_enabled
       (receive_force_cmd_cb example_deps [5, 6, 7, 8]
          (example_hand\<lparr>tactile_stops_enabled := True\<rparr>)) \<and>
   \<not> tactile_stops_enabled
       (fold (deliver example_deps) example_inbounds
          (receive_force_cmd_cb example_deps [5, 6, 7, 8]
             (example_hand\<lparr>tactile_stops_enabled := True\<rparr>)))"
proof -
  have a: "tactile_stops_enabled (example_hand\<lparr>tactile_stops_enabled := True\<rparr>)" by simp
  have b: "Enable_service \<notin> set example_inbounds" by (simp add: example_inbounds_def)
  from force_override [of example_deps "[5, 6, 7, 8]"
      "example_hand\<lparr>tactile_stops_enabled := True\<rparr>" example_inbounds] a b
  show ?thesis by blast
qed

text \<open>
  Claim C3. The combined, the angle and the velocity handler each run in the order:
  disable (entered and left), the setters of the command, enable (entered and left), when
  the tactile stops were enabled at the arrival of the command; the setters work on the
  motors as the disabling has left them, and the enabling works on the motors as the
  setters have left them. When the tactile stops were not enabled, the handler calls the
  setters only, and neither disables nor enables.
\<close>

theorem interlock_sequencing:
  "trace (receive_cmd_cb D c h) =
     trace h
     @ (if tactile_stops_enabled h
        then [Enter Disable_tactile_stops, Sleep 0.05, Leave Disable_tactile_stops] else [])
     @ [Enter Set_speeds, Leave Set_speeds, Enter Set_angles, Leave Set_angles]
     @ (if tactile_stops_enabled h
        then [Enter Enable_tactile_stops, Sleep 0.07, Leave Enable_tactile_stops] else []) \<and>
   trace (receive_angle_cmd_cb D p h) =
     trace h
     @ (if tactile_stops_enabled h
        then [Enter Disable_tactile_stops, Sleep 0.05, Leave Disable_tactile_stops] else [])
     @ [Enter Reset_speeds, Leave Reset_speeds, Enter Set_angles, Leave Set_angles]
     @ (if tactile_stops_enabled h
        then [Enter Enable_tactile_stops, Sleep 0.07, Leave Enable_tactile_stops] else []) \<and>
   trace (receive_vel_cmd_cb D v h) =
     trace h
     @ (if tactile_stops_enabled h
        then [Enter Disable_tactile_stops, Sleep 0.05, Leave Disable_tactile_stops] else [])
     @ [Enter Set_velocities, Leave Set_velocities]
     @ (if tactile_stops_enabled h
        then [Enter Enable_tactile_stops, Sleep 0.07, Leave Enable_tactile_stops] else []) \<and>
   motors (receive_cmd_cb D c h) =
     (if tactile_stops_enabled h then
        for_each_motor (\<lambda>m. motor_enable_tactile_stops D (finger_of (fingers h) m) m)
          (base_set_angles D (pose c) (base_set_speeds D (velocity c)
            (for_each_motor (\<lambda>m. motor_disable_tactile_stops D (finger_of (fingers h) m) m)
               (motors h))))
      else base_set_angles D (pose c) (base_set_speeds D (velocity c) (motors h))) \<and>
   motors (receive_angle_cmd_cb D p h) =
     (if tactile_stops_enabled h then
        for_each_motor (\<lambda>m. motor_enable_tactile_stops D (finger_of (fingers h) m) m)
          (base_set_angles D p (base_reset_speeds D
            (for_each_motor (\<lambda>m. motor_disable_tactile_stops D (finger_of (fingers h) m) m)
               (motors h))))
      else base_set_angles D p (base_reset_speeds D (motors h))) \<and>
   motors (receive_vel_cmd_cb D v h) =
     (if tactile_stops_enabled h then
        for_each_motor (\<lambda>m. motor_enable_tactile_stops D (finger_of (fingers h) m) m)
          (base_set_velocities D v
            (for_each_motor (\<lambda>m. motor_disable_tactile_stops D (finger_of (fingers h) m) m)
               (motors h)))
      else base_set_velocities D v (motors h))"
  using trace_receive_cmd_cb [of D c h] trace_receive_angle_cmd_cb [of D p h]
    trace_receive_vel_cmd_cb [of D v h] motors_receive_cmd_cb [of D c h]
    motors_receive_angle_cmd_cb [of D p h] motors_receive_vel_cmd_cb [of D v h]
  by blast

subsection \<open>Construction\<close>

lemma init_example: "init example_deps \<lparr>secs = 100, nsecs = 0\<rparr> = Inr example_hand"
  by (simp add: init_def ReflexHand_motors_def example_deps_def example_hand_def example_motor_def)





subsection \<open>The arbitration of a tick\<close>


lemma any_motor_for_each_motor: "any_motor p (for_each_motor f ms) = any_motor (\<lambda>m. p (f m)) ms"
  by (induction ms) (auto simp: for_each_motor_def any_motor_def)

lemma any_motor_False: "\<not> any_motor (\<lambda>m. False) ms"
  by (induction ms) (auto simp: any_motor_def)








lemma any_motor_flags_of: "any_motor flag ms = list_ex snd (flags_of flag ms)"
  by (induction ms) (auto simp: flags_of_def any_motor_def)










end
